theory Spec2Isabelle
  imports Complex_Main "HOL-Library.Sublist"
begin

section \<open>PeasyPlayer: a shallow embedding of \<open>peasyplayer.py\<close>\<close>

text \<open>
  The class \<open>PeasyPlayer\<close> drives a VLC list player from GPIO buttons and an RFID reader.
  Its methods mutate \<open>self\<close>; here every method takes the object's state and returns the
  new state together with what the method returns or raises.

  What the program reads from outside is an explicit argument:
  \<^item> every call of \<open>time.time()\<close> is a reading of type \<open>real\<close> (seconds since the Unix
    epoch). Python's floats are modelled as exact reals; the concrete inputs used below
    are small integers, which floats represent exactly;
  \<^item> a Python \<open>str\<close> is the list of the bytes of its UTF-8 encoding;
  \<^item> \<open>os.listdir\<close> is a function from a path to a listing or an exception;
  \<^item> the draws of \<open>random.shuffle\<close> are a function from the loop index to a number;
  \<^item> what the VLC engine answers (\<open>get_state\<close>, \<open>get_time\<close>, the value of \<open>play()\<close>)
    and what \<open>rfidpeasyplayer.scan_card\<close> returns or raises are arguments too.
  What the program does to the outside is recorded in the state: the media list and the
  playback mode it has set on the list player, the sequence of commands it has sent to
  it, and the records it has passed to \<open>logging\<close>. \<open>time.sleep\<close> changes nothing but the
  later clock readings, so it does not appear.
\<close>

subsection \<open>Values, exceptions, log records\<close>

datatype pyval = PyNone | PyInt int

datatype exn =
  FileNotFoundError | PermissionError | NotADirectoryError | OSError | TypeError | AttributeError

datatype level = DEBUG | INFO | WARNING

text \<open>
  A log record keeps the literal text of the f-string, with \<open>{}\<close> for each interpolated
  expression, and the interpolated values in order.
\<close>

datatype logarg = Str string | Num int | Strs "string list" | NoneArg | Exn exn

type_synonym log_record = "level \<times> string \<times> logarg list"

subsection \<open>The list player and the player object\<close>

datatype vlc_call = Next | Play | Stop | Pause | SetTime int

record vlc_list_player =
  media_list :: "string list"
  playback_mode :: int
  calls :: "vlc_call list"

record player =
  last_input_times :: "string \<rightharpoonup> real"
  play_pause_was_held :: bool
  last_action_time :: real
  inactive_timeout :: int
  list_player :: vlc_list_player
  logged :: "log_record list"

type_synonym 'a outcome = "(exn + 'a) \<times> player"

definition logging :: "level \<Rightarrow> string \<Rightarrow> logarg list \<Rightarrow> player \<Rightarrow> player" where
  "logging lv msg args p = p\<lparr>logged := logged p @ [(lv, msg, args)]\<rparr>"

definition set_media_list :: "string list \<Rightarrow> player \<Rightarrow> player" where
  "set_media_list ml p = p\<lparr>list_player := (list_player p)\<lparr>media_list := ml\<rparr>\<rparr>"

definition set_playback_mode :: "int \<Rightarrow> player \<Rightarrow> player" where
  "set_playback_mode m p = p\<lparr>list_player := (list_player p)\<lparr>playback_mode := m\<rparr>\<rparr>"

definition vlc :: "vlc_call \<Rightarrow> player \<Rightarrow> player" where
  "vlc c p = p\<lparr>list_player := (list_player p)\<lparr>calls := calls (list_player p) @ [c]\<rparr>\<rparr>"

text \<open>\<open>self.list_player.stop\<close> and \<open>self.list_player.pause\<close> as callbacks: both return \<open>None\<close>.\<close>

definition list_player_stop :: "player \<Rightarrow> pyval outcome" where
  "list_player_stop p = (Inr PyNone, vlc Stop p)"

definition list_player_pause :: "player \<Rightarrow> pyval outcome" where
  "list_player_pause p = (Inr PyNone, vlc Pause p)"

subsection \<open>\<open>input_delay\<close>\<close>

text \<open>
  \<open>self.last_input_times\<close> is a \<open>defaultdict(float)\<close>: reading a missing key stores and
  returns \<open>0.0\<close>.
\<close>

definition last_time :: "player \<Rightarrow> string \<Rightarrow> real" where
  "last_time p input_id = (case last_input_times p input_id of None \<Rightarrow> 0 | Some t \<Rightarrow> t)"

definition touch :: "string \<Rightarrow> player \<Rightarrow> player" where
  "touch input_id p =
     p\<lparr>last_input_times := (last_input_times p)(input_id \<mapsto> last_time p input_id)\<rparr>"

text \<open>
  \<open>input_delay callback input_id delay\<close>; \<open>t_check\<close> is the clock reading of the test and
  \<open>t_set\<close> the one that is stored. The callback comes already applied to its arguments.
  When the test fails the method falls off its end and returns \<open>None\<close>.
\<close>

definition input_delay ::
  "(player \<Rightarrow> pyval outcome) \<Rightarrow> string \<Rightarrow> real \<Rightarrow> real \<Rightarrow> real \<Rightarrow> player \<Rightarrow> pyval outcome" where
  "input_delay callback input_id delay t_check t_set p =
     (let p1 = logging DEBUG ''\"{}\" was input'' [Str input_id] p;
          p2 = touch input_id p1
      in if last_time p2 input_id + delay < t_check
         then callback (p2\<lparr>last_input_times := (last_input_times p2)(input_id \<mapsto> t_set)\<rparr>)
         else (Inr PyNone, p2))"

subsection \<open>Play/pause: hold and release\<close>

definition play_pause_held :: "(player \<Rightarrow> pyval outcome) \<Rightarrow> player \<Rightarrow> pyval outcome" where
  "play_pause_held func p = func (p\<lparr>play_pause_was_held := True\<rparr>)"

definition play_pause_released :: "(player \<Rightarrow> pyval outcome) \<Rightarrow> player \<Rightarrow> pyval outcome" where
  "play_pause_released func p =
     (if play_pause_was_held p then (Inr PyNone, p\<lparr>play_pause_was_held := False\<rparr>)
      else func p)"

subsection \<open>Building a media list\<close>

definition movie_formats :: "string list" where
  "movie_formats = [''.mp4'', ''.mov'', ''.avi'', ''.mkv'', ''.m4v'', ''.mp3'', ''.wav'']"

text \<open>\<open>_format in file\<close> on two strings is the test for a contiguous substring.\<close>

fun is_movie_format_loop :: "string list \<Rightarrow> string \<Rightarrow> bool" where
  "is_movie_format_loop [] file = False"
| "is_movie_format_loop (fmt # fmts) file =
     (if sublist fmt file then True else is_movie_format_loop fmts file)"

definition is_movie_format :: "string \<Rightarrow> bool" where
  "is_movie_format file = is_movie_format_loop movie_formats file"

text \<open>\<open>os.path.join\<close> of \<open>posixpath\<close>, for two components.\<close>

definition os_path_join :: "string \<Rightarrow> string \<Rightarrow> string" where
  "os_path_join a b =
     (if prefix ''/'' b then b
      else if a = [] \<or> suffix ''/'' a then a @ b
      else a @ ''/'' @ b)"

text \<open>
  \<open>random.shuffle\<close>: for \<open>i\<close> from \<open>len(x) - 1\<close> down to \<open>1\<close>, swap \<open>x[i]\<close> with \<open>x[j]\<close>,
  \<open>j = randbelow(i + 1)\<close>. The draw at index \<open>i\<close> is \<open>draws i\<close>, reduced into the range
  of \<open>randbelow\<close>.
\<close>

fun shuffle_loop :: "(nat \<Rightarrow> nat) \<Rightarrow> nat \<Rightarrow> 'a list \<Rightarrow> 'a list" where
  "shuffle_loop draws 0 xs = xs"
| "shuffle_loop draws (Suc i) xs =
     (let j = draws (Suc i) mod (Suc i + 1)
      in shuffle_loop draws i (xs[Suc i := xs ! j, j := xs ! Suc i]))"

definition random_shuffle :: "(nat \<Rightarrow> nat) \<Rightarrow> 'a list \<Rightarrow> 'a list" where
  "random_shuffle draws xs = shuffle_loop draws (length xs - 1) xs"

text \<open>
  What a call that builds and plays a media list reads from outside: the file system,
  the draws of the shuffle, the clock reading of \<open>play_media_list\<close>, and the value that
  \<open>list_player.play()\<close> returns.
\<close>

record env =
  listdir :: "string \<Rightarrow> exn + string list"
  draws :: "nat \<Rightarrow> nat"
  time_play :: real
  play_returns :: pyval

text \<open>
  \<open>create_media_list\<close>. The media list is the list of the paths given to \<open>media_new\<close>.
  Only \<open>FileNotFoundError\<close> is handled; any other exception of \<open>os.listdir\<close> leaves the
  method.
\<close>

definition create_media_list :: "env \<Rightarrow> string \<Rightarrow> bool \<Rightarrow> player \<Rightarrow> (string list) outcome" where
  "create_media_list e path shuffle p =
     (case listdir e path of
        Inl err \<Rightarrow>
          (if err = FileNotFoundError then (Inr [], logging WARNING ''{}'' [Exn err] p)
           else (Inl err, p))
      | Inr names \<Rightarrow>
          (let p1 = logging DEBUG ''Files in dir: {}'' [Strs names] p;
               movies = map (os_path_join path) (filter is_movie_format names);
               p2 = logging INFO ''{} movies found in directory.'' [Num (int (length movies))] p1;
               movies' = (if shuffle then random_shuffle (draws e) movies else movies);
               p3 = logging DEBUG ''Movies:\<newline>{}'' [Strs movies'] p2
           in (Inr movies', p3)))"

subsection \<open>Playing\<close>

definition play_media_list :: "env \<Rightarrow> string list \<Rightarrow> bool \<Rightarrow> player \<Rightarrow> pyval outcome" where
  "play_media_list e ml loop p =
     (let p1 = p\<lparr>last_action_time := time_play e\<rparr>;
          p2 = set_media_list ml p1;
          p3 = logging INFO ''Playing media list of length {}'' [Num (int (length ml))] p2;
          p4 = (if loop
                then logging DEBUG ''Looping set to True'' [] (set_playback_mode 1 p3)
                else logging DEBUG ''Looping set to False'' [] (set_playback_mode 0 p3));
          p5 = vlc Next p4;
          p6 = vlc Play p5
      in (Inr (play_returns e), p6))"

text \<open>
  \<open>str.strip()\<close> removes at both ends the characters for which \<open>str.isspace()\<close> holds:
  the code points 9 to 13 and 28 to 32, U+0085, U+00A0, U+1680, U+2000 to U+200A, U+2028,
  U+2029, U+202F, U+205F and U+3000. In UTF-8 the first group is one byte each, the next
  two are two bytes and the others three bytes.
\<close>

definition is_space :: "char \<Rightarrow> bool" where
  "is_space c = (let n = (of_char c :: nat) in (9 \<le> n \<and> n \<le> 13) \<or> (28 \<le> n \<and> n \<le> 32))"

definition is_space2 :: "char \<Rightarrow> char \<Rightarrow> bool" where
  "is_space2 a b = (a = CHR 0xC2 \<and> (b = CHR 0x85 \<or> b = CHR 0xA0))"

definition is_space3 :: "char \<Rightarrow> char \<Rightarrow> char \<Rightarrow> bool" where
  "is_space3 a b c =
     ((a = CHR 0xE1 \<and> b = CHR 0x9A \<and> c = CHR 0x80) \<or>
      (a = CHR 0xE2 \<and> b = CHR 0x80 \<and>
         (let n = (of_char c :: nat)
          in (0x80 \<le> n \<and> n \<le> 0x8A) \<or> n = 0xA8 \<or> n = 0xA9 \<or> n = 0xAF)) \<or>
      (a = CHR 0xE2 \<and> b = CHR 0x81 \<and> c = CHR 0x9F) \<or>
      (a = CHR 0xE3 \<and> b = CHR 0x80 \<and> c = CHR 0x80))"

fun lstrip :: "string \<Rightarrow> string" where
  "lstrip (a # b # c # s) =
     (if is_space a then lstrip (b # c # s)
      else if is_space2 a b then lstrip (c # s)
      else if is_space3 a b c then lstrip s
      else a # b # c # s)"
| "lstrip [a, b] =
     (if is_space a then lstrip [b] else if is_space2 a b then [] else [a, b])"
| "lstrip [a] = (if is_space a then [] else [a])"
| "lstrip [] = []"

text \<open>
  The same from the other end, on the reversed bytes: the last character of the string
  comes first, its bytes in reverse order.
\<close>

fun rstrip_rev :: "string \<Rightarrow> string" where
  "rstrip_rev (c # b # a # s) =
     (if is_space c then rstrip_rev (b # a # s)
      else if is_space2 b c then rstrip_rev (a # s)
      else if is_space3 a b c then rstrip_rev s
      else c # b # a # s)"
| "rstrip_rev [c, b] =
     (if is_space c then rstrip_rev [b] else if is_space2 b c then [] else [c, b])"
| "rstrip_rev [c] = (if is_space c then [] else [c])"
| "rstrip_rev [] = []"

definition strip :: "string \<Rightarrow> string" where
  "strip s = rev (rstrip_rev (rev (lstrip s)))"

definition movies_dir :: string where
  "movies_dir = ''/media/usb/''"

definition default_dir :: string where
  "default_dir = ''/home/pi/peasyplayer/''"

text \<open>
  \<open>play_movies_from_folder(folder, **kwargs)\<close>: the keyword arguments \<open>shuffle\<close> and
  \<open>loop\<close> are optional.
\<close>

definition play_movies_from_folder ::
  "env \<Rightarrow> string \<Rightarrow> bool option \<Rightarrow> bool option \<Rightarrow> player \<Rightarrow> pyval outcome" where
  "play_movies_from_folder e folder shuffle_kw loop_kw p =
     (let folder' = strip folder;
          folder_path = os_path_join movies_dir folder';
          (r, p1) = (case shuffle_kw of
                       Some s \<Rightarrow> create_media_list e folder_path s p
                     | None \<Rightarrow> create_media_list e folder_path False p)
      in case r of
           Inl err \<Rightarrow> (Inl err, p1)
         | Inr ml \<Rightarrow>
             (case loop_kw of
                Some l \<Rightarrow> play_media_list e ml l p1
              | None \<Rightarrow>
                  play_media_list e ml False
                    (logging INFO ''Playing movies from folder \"{}\"'' [Str folder'] p1)))"






subsection \<open>The button listeners of \<open>set_input_listeners\<close>\<close>

definition movie_delay :: real where
  "movie_delay = 3"

definition control_delay :: real where
  "control_delay = 1"




definition pause_held :: "real \<Rightarrow> real \<Rightarrow> player \<Rightarrow> pyval outcome" where
  "pause_held t_check t_set p =
     play_pause_held (input_delay list_player_stop ''control'' control_delay t_check t_set) p"

definition pause_released :: "real \<Rightarrow> real \<Rightarrow> player \<Rightarrow> pyval outcome" where
  "pause_released t_check t_set p =
     play_pause_released (input_delay list_player_pause ''control'' control_delay t_check t_set) p"

subsection \<open>The main loop of \<open>start\<close>\<close>

text \<open>The inactivity timeout at the head of every tick.\<close>

definition inactivity_check :: "real \<Rightarrow> player \<Rightarrow> player" where
  "inactivity_check tick_start p =
     (if last_action_time p + real_of_int (inactive_timeout p * 60) < tick_start
      then
        (let p1 = logging INFO
                    ''Inactivity timeout: You have been inactive for {} minutes. Resetting player.''
                    [Num (inactive_timeout p)] p;
             p2 = set_media_list [] p1;
             p3 = set_playback_mode 0 p2
         in p3\<lparr>last_action_time := tick_start\<rparr>)
      else p)"

text \<open>
  What one tick reads from outside: its starting time, the two answers of \<open>get_state()\<close>,
  what the default play reads, what \<open>scan_card\<close> returns or raises, the two clock
  readings of \<open>input_delay\<close> and what the play of the scanned folder reads.
\<close>

record tick_env =
  tick_start :: real
  state_first :: int
  state_second :: int
  env_default :: env
  scan_card :: "exn + (bool \<times> string option)"
  rfid_check :: real
  rfid_set :: real
  env_rfid :: env

definition playing :: "int set" where
  "playing = {1, 2, 3, 4}"

text \<open>
  The \<open>try\<close> block of the RFID scan. \<open>except TypeError\<close> handles a \<open>TypeError\<close> raised
  anywhere in the block; any other exception leaves the loop.
\<close>

definition rfid_except :: "exn \<Rightarrow> player \<Rightarrow> unit outcome" where
  "rfid_except err p =
     (if err = TypeError
      then (Inr (), logging WARNING ''Error scanning RFID card. Please try again.'' [] p)
      else (Inl err, p))"

definition rfid_input :: "tick_env \<Rightarrow> player \<Rightarrow> unit outcome" where
  "rfid_input te p =
     (case scan_card te of
        Inl err \<Rightarrow> rfid_except err p
      | Inr (scanned, folder) \<Rightarrow>
          (let p1 = logging DEBUG ''Raw folder name: \"{}\"''
                      [case folder of None \<Rightarrow> NoneArg | Some f \<Rightarrow> Str f] p
           in if scanned
              then (case folder of
                      None \<Rightarrow> rfid_except AttributeError p1
                    | Some f \<Rightarrow>
                        (let f' = strip f;
                             p2 = logging INFO ''RFID scanned for folder \"{}\"'' [Str f'] p1;
                             (r, p3) = input_delay
                                         (play_movies_from_folder (env_rfid te) f' (Some True) (Some True))
                                         ''rfid'' 1 (rfid_check te) (rfid_set te) p2
                         in case r of Inl err \<Rightarrow> rfid_except err p3 | Inr v \<Rightarrow> (Inr (), p3)))
              else (Inr (), p1)))"

text \<open>
  The part of a tick before the RFID scan. \<open>Inr (True, p)\<close>: the tick goes on to the scan;
  \<open>Inr (False, p)\<close>: the \<open>continue\<close> has ended the tick.
\<close>

definition default_movie :: "tick_env \<Rightarrow> player \<Rightarrow> bool outcome" where
  "default_movie te p =
     (let p1 = logging DEBUG ''Media Player state: {}'' [Num (state_first te)] p
      in if state_first te \<notin> playing
         then
           (if state_second te \<in> playing then (Inr False, p1)
            else
              (let p2 = logging INFO ''Playing default movie'' [] p1;
                   (r, p3) = create_media_list (env_default te) default_dir False p2
               in case r of
                    Inl err \<Rightarrow> (Inl err, p3)
                  | Inr ml \<Rightarrow>
                      (let (r', p4) = play_media_list (env_default te) ml True p3
                       in case r' of Inl err \<Rightarrow> (Inl err, p4) | Inr v \<Rightarrow> (Inr True, p4))))
         else (Inr True, p1))"

definition tick :: "tick_env \<Rightarrow> player \<Rightarrow> unit outcome" where
  "tick te p =
     (let p1 = inactivity_check (tick_start te) p;
          (r, p2) = default_movie te p1
      in case r of
           Inl err \<Rightarrow> (Inl err, p2)
         | Inr go_on \<Rightarrow> (if go_on then rfid_input te p2 else (Inr (), p2)))"

text \<open>
  The \<open>while True\<close> loop never returns; it is run here over the ticks whose readings are
  given, and stops at the first tick that raises.
\<close>

fun ticks :: "tick_env list \<Rightarrow> player \<Rightarrow> unit outcome" where
  "ticks [] p = (Inr (), p)"
| "ticks (te # tes) p =
     (case tick te p of
        (Inl err, p') \<Rightarrow> (Inl err, p')
      | (Inr u, p') \<Rightarrow> ticks tes p')"

definition start :: "tick_env list \<Rightarrow> player \<Rightarrow> unit outcome" where
  "start tes p = ticks tes (logging INFO ''\<newline>\<newline>\<newline>***** Begin Player *****\<newline>\<newline>\<newline>'' [] p)"

text \<open>
  The object that \<open>__init__\<close> builds at clock reading \<open>t0\<close>, with a list player that
  has no media list, does not loop and has been sent none of the commands recorded here.
\<close>

definition init :: "real \<Rightarrow> player" where
  "init t0 =
     \<lparr>last_input_times = Map.empty,
      play_pause_was_held = False,
      last_action_time = t0,
      inactive_timeout = 300,
      list_player = \<lparr>media_list = [], playback_mode = 0, calls = []\<rparr>,
      logged = []\<rparr>"

subsection \<open>Sample surroundings\<close>

text \<open>
  A USB stick with one movie in each of the folders \<open>b1\<close> and \<open>b2\<close>, a tick in which a
  card for \<open>b2\<close> is scanned while a movie is playing, a tick in which the scan raises
  \<open>TypeError\<close>, and a tick in which it raises \<open>OSError\<close>.
\<close>

definition usb :: env where
  "usb = \<lparr>listdir = (\<lambda>d. if d = ''/media/usb/b1'' then Inr [''a.mp4'']
                         else if d = ''/media/usb/b2'' then Inr [''z.mp4'']
                         else Inl FileNotFoundError),
          draws = (\<lambda>i. 0), time_play = 100, play_returns = PyNone\<rparr>"

definition card_tick :: tick_env where
  "card_tick = \<lparr>tick_start = 200, state_first = 3, state_second = 3, env_default = usb,
                 scan_card = Inr (True, Some ''b2 ''), rfid_check = 200, rfid_set = 200,
                 env_rfid = usb\<rparr>"

definition glitch_tick :: tick_env where
  "glitch_tick = \<lparr>tick_start = 200, state_first = 3, state_second = 3, env_default = usb,
                   scan_card = Inl TypeError, rfid_check = 200, rfid_set = 200,
                   env_rfid = usb\<rparr>"

definition broken_tick :: tick_env where
  "broken_tick = \<lparr>tick_start = 200, state_first = 3, state_second = 3, env_default = usb,
                   scan_card = Inl OSError, rfid_check = 200, rfid_set = 200,
                   env_rfid = usb\<rparr>"

section \<open>Properties\<close>

subsection \<open>Projections of the state through the elementary updates\<close>

lemma last_time_simps [simp]:
  "last_time (logging lv msg args p) c = last_time p c"
  "last_time (vlc k p) c = last_time p c"
  "last_time (set_media_list ml p) c = last_time p c"
  "last_time (set_playback_mode m p) c = last_time p c"
  "last_time (touch ch p) c = last_time p c"
  "last_time (p\<lparr>last_input_times := (last_input_times p)(ch \<mapsto> t)\<rparr>) c = (if c = ch then t else last_time p c)"
  "last_time (p\<lparr>play_pause_was_held := b\<rparr>) c = last_time p c"
  "last_time (p\<lparr>last_action_time := t\<rparr>) c = last_time p c"
  by (simp_all add: last_time_def logging_def vlc_def set_media_list_def set_playback_mode_def touch_def)

lemma list_player_simps [simp]:
  "list_player (logging lv msg args p) = list_player p"
  "list_player (touch ch p) = list_player p"
  "calls (list_player (vlc k p)) = calls (list_player p) @ [k]"
  "media_list (list_player (vlc k p)) = media_list (list_player p)"
  "playback_mode (list_player (vlc k p)) = playback_mode (list_player p)"
  "calls (list_player (set_media_list ml p)) = calls (list_player p)"
  "media_list (list_player (set_media_list ml p)) = ml"
  "playback_mode (list_player (set_media_list ml p)) = playback_mode (list_player p)"
  "calls (list_player (set_playback_mode m p)) = calls (list_player p)"
  "media_list (list_player (set_playback_mode m p)) = media_list (list_player p)"
  "playback_mode (list_player (set_playback_mode m p)) = m"
  by (simp_all add: logging_def vlc_def set_media_list_def set_playback_mode_def touch_def)

lemma held_simps [simp]:
  "play_pause_was_held (logging lv msg args p) = play_pause_was_held p"
  "play_pause_was_held (touch ch p) = play_pause_was_held p"
  "play_pause_was_held (vlc k p) = play_pause_was_held p"
  "play_pause_was_held (set_media_list ml p) = play_pause_was_held p"
  "play_pause_was_held (set_playback_mode m p) = play_pause_was_held p"
  by (simp_all add: logging_def vlc_def set_media_list_def set_playback_mode_def touch_def)

lemma action_time_simps [simp]:
  "last_action_time (logging lv msg args p) = last_action_time p"
  "last_action_time (touch ch p) = last_action_time p"
  "last_action_time (vlc k p) = last_action_time p"
  "last_action_time (set_media_list ml p) = last_action_time p"
  "last_action_time (set_playback_mode m p) = last_action_time p"
  "inactive_timeout (logging lv msg args p) = inactive_timeout p"
  "inactive_timeout (touch ch p) = inactive_timeout p"
  "inactive_timeout (vlc k p) = inactive_timeout p"
  "inactive_timeout (set_media_list ml p) = inactive_timeout p"
  "inactive_timeout (set_playback_mode m p) = inactive_timeout p"
  by (simp_all add: logging_def vlc_def set_media_list_def set_playback_mode_def touch_def)


subsection \<open>The input debouncer\<close>

text \<open>
  Claim C1, as the code has it. \<open>input_delay\<close> calls the action exactly when
  \<open>last + delay < now\<close> (a strict comparison: at \<open>now - last = delay\<close> the action is still
  suppressed). When it fires, the action runs on a state whose timestamp for the channel
  is the second clock reading, nothing else but the debug record having changed, and
  \<open>input_delay\<close> returns what the action returns. When it does not fire, the method
  returns \<open>None\<close>, the action is not run (the result does not depend on it) and the
  channel's timestamp keeps its value. Two triggers, the first of which fires: the second
  fires as well exactly when it comes more than \<open>delay\<close> after the stored timestamp, so the
  two issue two commands then and one otherwise.
\<close>

theorem input_delay_gate:
  "(last_time p ch + d < t1 \<longrightarrow>
      (\<exists>p'. input_delay cb ch d t1 t2 p = cb p' \<and> last_time p' ch = t2 \<and>
            (\<forall>c. c \<noteq> ch \<longrightarrow> last_time p' c = last_time p c) \<and>
            list_player p' = list_player p \<and>
            play_pause_was_held p' = play_pause_was_held p \<and>
            last_action_time p' = last_action_time p)) \<and>
   (\<not> last_time p ch + d < t1 \<longrightarrow>
      input_delay cb ch d t1 t2 p =
        (Inr PyNone, touch ch (logging DEBUG ''\"{}\" was input'' [Str ch] p)) \<and>
      last_time (snd (input_delay cb ch d t1 t2 p)) ch = last_time p ch \<and>
      list_player (snd (input_delay cb ch d t1 t2 p)) = list_player p) \<and>
   (last_time p ch + d < t1 \<longrightarrow>
      calls (list_player (snd (input_delay list_player_pause ch d t3 t4
               (snd (input_delay list_player_pause ch d t1 t2 p))))) =
        calls (list_player p) @ (if t2 + d < t3 then [Pause, Pause] else [Pause]))"
  by (auto simp: input_delay_def Let_def list_player_pause_def)

text \<open>
  A trigger one second after a timestamp of 10 and then triggers one and two seconds after
  a trigger that fired at 12, on a channel with a delay of one second.
\<close>

theorem input_delay_gate_witness:
  "last_time ((init 0)\<lparr>last_input_times := [''control'' \<mapsto> 10]\<rparr>) ''control'' + 1 < 12 \<and>
   calls (list_player (snd (input_delay list_player_pause ''control'' 1 12 12
      ((init 0)\<lparr>last_input_times := [''control'' \<mapsto> 10]\<rparr>)))) = [Pause] \<and>
   calls (list_player (snd (input_delay list_player_pause ''control'' 1 13 13
      (snd (input_delay list_player_pause ''control'' 1 12 12
        ((init 0)\<lparr>last_input_times := [''control'' \<mapsto> 10]\<rparr>)))))) = [Pause] \<and>
   calls (list_player (snd (input_delay list_player_pause ''control'' 1 14 14
      (snd (input_delay list_player_pause ''control'' 1 12 12
        ((init 0)\<lparr>last_input_times := [''control'' \<mapsto> 10]\<rparr>)))))) = [Pause, Pause] \<and>
   \<not> last_time ((init 0)\<lparr>last_input_times := [''control'' \<mapsto> 10]\<rparr>) ''control'' + 1 < 11 \<and>
   list_player (snd (input_delay list_player_pause ''control'' 1 11 11
      ((init 0)\<lparr>last_input_times := [''control'' \<mapsto> 10]\<rparr>))) = list_player (init 0)"
  using input_delay_gate [of "(init 0)\<lparr>last_input_times := [''control'' \<mapsto> 10]\<rparr>" "''control''" 1 12
          list_player_pause 12 13 13]
        input_delay_gate [of "(init 0)\<lparr>last_input_times := [''control'' \<mapsto> 10]\<rparr>" "''control''" 1 12
          list_player_pause 12 14 14]
        input_delay_gate [of "(init 0)\<lparr>last_input_times := [''control'' \<mapsto> 10]\<rparr>" "''control''" 1 11
          list_player_pause 11 14 14]
  by (simp add: init_def last_time_def list_player_pause_def input_delay_def Let_def touch_def
      logging_def vlc_def)

text \<open>
  Claim C1 as stated fails at the boundary: with a timestamp of 10, a delay of 1 and the
  clock at 11, \<open>now - last \<ge> delay\<close> holds and the action is suppressed.
\<close>

theorem input_delay_boundary_counterexample:
  "(11::real) - last_time ((init 0)\<lparr>last_input_times := [''control'' \<mapsto> 10]\<rparr>) ''control'' \<ge> 1 \<and>
   fst (input_delay list_player_pause ''control'' 1 11 11 ((init 0)\<lparr>last_input_times := [''control'' \<mapsto> 10]\<rparr>)) = Inr PyNone \<and>
   calls (list_player (snd (input_delay list_player_pause ''control'' 1 11 11
      ((init 0)\<lparr>last_input_times := [''control'' \<mapsto> 10]\<rparr>)))) = [] \<and>
   last_time (snd (input_delay list_player_pause ''control'' 1 11 11
      ((init 0)\<lparr>last_input_times := [''control'' \<mapsto> 10]\<rparr>))) ''control'' = 10"
  by (simp add: input_delay_def Let_def list_player_pause_def init_def last_time_def touch_def logging_def)

subsection \<open>Hold and release of the play/pause button\<close>

text \<open>
  Claim C2. A gesture starts with the flag \<open>play_pause_was_held\<close> cleared. If the hold
  threshold is reached and the cooldown of the control channel permits at that time, the
  gesture sends exactly \<open>stop\<close>: the hold sets the flag and sends it, and the release, at
  whatever time it comes, sends nothing and clears the flag. If the button is released
  before the threshold and the cooldown permits at the release, the gesture sends
  exactly \<open>pause\<close>.
\<close>

theorem hold_or_tap_exactly_one:
  "\<not> play_pause_was_held p \<Longrightarrow>
     (last_time p ''control'' + control_delay < t_held \<longrightarrow>
        calls (list_player (snd (pause_held t_held t_held' p))) = calls (list_player p) @ [Stop] \<and>
        play_pause_was_held (snd (pause_held t_held t_held' p)) \<and>
        calls (list_player (snd (pause_released t_rel t_rel' (snd (pause_held t_held t_held' p))))) =
          calls (list_player p) @ [Stop] \<and>
        \<not> play_pause_was_held (snd (pause_released t_rel t_rel' (snd (pause_held t_held t_held' p))))) \<and>
     (last_time p ''control'' + control_delay < t_rel \<longrightarrow>
        calls (list_player (snd (pause_released t_rel t_rel' p))) = calls (list_player p) @ [Pause] \<and>
        \<not> play_pause_was_held (snd (pause_released t_rel t_rel' p)))"
  by (auto simp: pause_held_def pause_released_def play_pause_held_def play_pause_released_def
      input_delay_def Let_def list_player_stop_def list_player_pause_def)

text \<open>
  A hold at 100 released at 200, when the cooldown has elapsed again, and a tap released at
  100, both on a fresh player.
\<close>

theorem hold_or_tap_exactly_one_witness:
  "\<not> play_pause_was_held (init 0) \<and>
   last_time (init 0) ''control'' + control_delay < 100 \<and>
   calls (list_player (snd (pause_released 200 200 (snd (pause_held 100 100 (init 0)))))) = [Stop] \<and>
   last_time (snd (pause_held 100 100 (init 0))) ''control'' + control_delay < 200 \<and>
   calls (list_player (snd (pause_released 100 100 (init 0)))) = [Pause]"
  using hold_or_tap_exactly_one [of "init 0" 100 100 200 200]
        hold_or_tap_exactly_one [of "init 0" 100 100 100 100]
  by (simp add: init_def last_time_def control_delay_def pause_held_def play_pause_held_def
      input_delay_def Let_def list_player_stop_def touch_def logging_def vlc_def)

text \<open>
  Claim C10. If the cooldown of the control channel has not elapsed when the hold threshold
  is reached, \<open>stop\<close> is suppressed but the flag is set all the same, so the release sends
  no \<open>pause\<close> either, whenever it comes: the gesture sends nothing, and the channel's
  timestamp is left as it was.
\<close>

theorem suppressed_hold_swallows_tap:
  "\<not> last_time p ''control'' + control_delay < t_held \<Longrightarrow>
     calls (list_player (snd (pause_held t_held t_held' p))) = calls (list_player p) \<and>
     play_pause_was_held (snd (pause_held t_held t_held' p)) \<and>
     calls (list_player (snd (pause_released t_rel t_rel' (snd (pause_held t_held t_held' p))))) =
       calls (list_player p) \<and>
     \<not> play_pause_was_held (snd (pause_released t_rel t_rel' (snd (pause_held t_held t_held' p)))) \<and>
     last_time (snd (pause_released t_rel t_rel' (snd (pause_held t_held t_held' p)))) ''control'' =
       last_time p ''control''"
  by (auto simp: pause_held_def pause_released_def play_pause_held_def play_pause_released_def
      input_delay_def Let_def list_player_stop_def list_player_pause_def)

text \<open>
  A control input at 100, the hold threshold at 101, the release at 110, when the cooldown
  would permit a tap.
\<close>

theorem suppressed_hold_swallows_tap_witness:
  "\<not> last_time ((init 0)\<lparr>last_input_times := [''control'' \<mapsto> 100]\<rparr>) ''control'' + control_delay < 101 \<and>
   last_time (snd (pause_held 101 101 ((init 0)\<lparr>last_input_times := [''control'' \<mapsto> 100]\<rparr>))) ''control''
     + control_delay < 110 \<and>
   calls (list_player (snd (pause_released 110 110
     (snd (pause_held 101 101 ((init 0)\<lparr>last_input_times := [''control'' \<mapsto> 100]\<rparr>)))))) = []"
  using suppressed_hold_swallows_tap [of "(init 0)\<lparr>last_input_times := [''control'' \<mapsto> 100]\<rparr>" 101 101 110 110]
  by (simp add: init_def last_time_def control_delay_def pause_held_def play_pause_held_def
      input_delay_def Let_def list_player_stop_def touch_def logging_def vlc_def)

subsection \<open>The first trigger of a channel\<close>

text \<open>
  Claim C9, as the code has it. The default of \<open>defaultdict(float)\<close> is \<open>0.0\<close>, the Unix
  epoch, not a time infinitely far back. The first trigger on a channel therefore fires
  exactly when the delay is less than the clock reading; with the configured delays of
  one and three seconds it fires at every clock reading above three.
\<close>

theorem first_trigger_fires_iff:
  "last_input_times p ch = None \<Longrightarrow>
     last_time p ch = 0 \<and>
     (d < t1 \<longrightarrow> (\<exists>p'. input_delay cb ch d t1 t2 p = cb p' \<and> last_time p' ch = t2 \<and>
                         list_player p' = list_player p)) \<and>
     (\<not> d < t1 \<longrightarrow> input_delay cb ch d t1 t2 p =
                      (Inr PyNone, touch ch (logging DEBUG ''\"{}\" was input'' [Str ch] p))) \<and>
     (3 < t1 \<longrightarrow>
        calls (list_player (snd (input_delay list_player_pause ch control_delay t1 t2 p))) =
          calls (list_player p) @ [Pause] \<and>
        calls (list_player (snd (input_delay list_player_pause ch movie_delay t1 t2 p))) =
          calls (list_player p) @ [Pause])"
  by (auto simp: input_delay_def Let_def last_time_def touch_def logging_def list_player_pause_def
       control_delay_def movie_delay_def vlc_def)

text \<open>
  A first scan on the RFID channel at a present-day clock reading, with a delay of one
  second and with a delay longer than the time since the epoch.
\<close>

theorem first_trigger_fires_iff_witness:
  "last_input_times (init 1700000000) ''rfid'' = None \<and> (1::real) < 1700000005 \<and>
   calls (list_player (snd (input_delay list_player_pause ''rfid'' 1 1700000005 1700000005
      (init 1700000000)))) = [Pause] \<and>
   \<not> (2000000000::real) < 1700000005 \<and>
   calls (list_player (snd (input_delay list_player_pause ''rfid'' 2000000000 1700000005 1700000005
      (init 1700000000)))) = []"
  using first_trigger_fires_iff [of "init 1700000000" "''rfid''" 1 1700000005 list_player_pause 1700000005]
    first_trigger_fires_iff [of "init 1700000000" "''rfid''" 2000000000 1700000005 list_player_pause 1700000005]
  by (simp add: init_def input_delay_def Let_def last_time_def touch_def logging_def list_player_pause_def vlc_def)

text \<open>
  Claim C9 as stated fails for a long cooldown: the first trigger of a channel is
  suppressed when the delay is not less than the clock reading.
\<close>

theorem first_trigger_counterexample:
  "last_input_times (init 1700000000) ''control'' = None \<and>
   input_delay list_player_pause ''control'' 2000000000 1700000005 1700000005 (init 1700000000) =
     (Inr PyNone, touch ''control'' (logging DEBUG ''\"{}\" was input'' [Str ''control''] (init 1700000000))) \<and>
   calls (list_player (snd (input_delay list_player_pause ''control'' 2000000000 1700000005 1700000005
      (init 1700000000)))) = []"
  by (simp add: init_def input_delay_def Let_def last_time_def touch_def logging_def)

subsection \<open>Channels\<close>
















subsection \<open>The inactivity timeout\<close>

text \<open>
  Claim C3, as the code has it. The timeout is \<open>inactive_timeout * 60\<close> seconds. On a tick
  that starts more than the timeout after \<open>last_action_time\<close> (strictly: at exactly the
  timeout nothing happens yet), the check sets an empty media list, sets playback mode 0 and
  sets \<open>last_action_time\<close> to the start of the tick, so that the check of any tick
  starting within the timeout of this one changes nothing. On every other tick the check
  leaves the whole state as it is.
\<close>

theorem inactivity_check_resets:
  "(last_action_time p + real_of_int (inactive_timeout p * 60) < now \<longrightarrow>
      media_list (list_player (inactivity_check now p)) = [] \<and>
      playback_mode (list_player (inactivity_check now p)) = 0 \<and>
      last_action_time (inactivity_check now p) = now \<and>
      (\<forall>now'. now' \<le> now + real_of_int (inactive_timeout p * 60) \<longrightarrow>
         inactivity_check now' (inactivity_check now p) = inactivity_check now p)) \<and>
   (\<not> last_action_time p + real_of_int (inactive_timeout p * 60) < now \<longrightarrow>
      inactivity_check now p = p)"
  by (auto simp: inactivity_check_def Let_def)

text \<open>
  A player started at 0 that loops a movie: the tick at 18001 resets it and the tick a
  tenth of a second later does not; the tick at 17000 does nothing.
\<close>

theorem inactivity_check_resets_witness:
  "last_action_time ((init 0)\<lparr>list_player := \<lparr>media_list = [''/media/usb/b1/a.mp4''], playback_mode = 1, calls = [Next, Play]\<rparr>\<rparr>)
     + real_of_int (inactive_timeout (init 0) * 60) < 18001 \<and>
   list_player (inactivity_check 18001
      ((init 0)\<lparr>list_player := \<lparr>media_list = [''/media/usb/b1/a.mp4''], playback_mode = 1, calls = [Next, Play]\<rparr>\<rparr>))
     = \<lparr>media_list = [], playback_mode = 0, calls = [Next, Play]\<rparr> \<and>
   inactivity_check (18001 + 1 / 10) (inactivity_check 18001
      ((init 0)\<lparr>list_player := \<lparr>media_list = [''/media/usb/b1/a.mp4''], playback_mode = 1, calls = [Next, Play]\<rparr>\<rparr>))
     = inactivity_check 18001
      ((init 0)\<lparr>list_player := \<lparr>media_list = [''/media/usb/b1/a.mp4''], playback_mode = 1, calls = [Next, Play]\<rparr>\<rparr>) \<and>
   \<not> last_action_time (init 0) + real_of_int (inactive_timeout (init 0) * 60) < 17000 \<and>
   inactivity_check 17000 (init 0) = init 0"
  using inactivity_check_resets [of "(init 0)\<lparr>list_player := \<lparr>media_list = [''/media/usb/b1/a.mp4''], playback_mode = 1, calls = [Next, Play]\<rparr>\<rparr>" 18001]
        inactivity_check_resets [of "init 0" 17000]
  by (simp add: init_def inactivity_check_def Let_def logging_def set_media_list_def set_playback_mode_def)

text \<open>
  Claim C3 as stated fails at the boundary: on the tick that starts exactly 18000 seconds
  after the last action, the media list and the loop mode are kept.
\<close>

theorem inactivity_boundary_counterexample:
  "(18000::real) - last_action_time ((init 0)\<lparr>list_player := \<lparr>media_list = [''/media/usb/b1/a.mp4''], playback_mode = 1, calls = [Next, Play]\<rparr>\<rparr>)
      \<ge> real_of_int (inactive_timeout (init 0) * 60) \<and>
   list_player (inactivity_check 18000
      ((init 0)\<lparr>list_player := \<lparr>media_list = [''/media/usb/b1/a.mp4''], playback_mode = 1, calls = [Next, Play]\<rparr>\<rparr>))
     = \<lparr>media_list = [''/media/usb/b1/a.mp4''], playback_mode = 1, calls = [Next, Play]\<rparr>"
  by (simp add: init_def inactivity_check_def)

subsection \<open>The playlist builder\<close>

lemma is_movie_format_loop_iff:
  "is_movie_format_loop fmts file \<longleftrightarrow> (\<exists>fmt \<in> set fmts. sublist fmt file)"
  by (induction fmts) auto

lemma is_movie_format_iff:
  "is_movie_format file \<longleftrightarrow> (\<exists>fmt \<in> set movie_formats. \<exists>ps ss. file = ps @ fmt @ ss)"
  by (simp add: is_movie_format_def is_movie_format_loop_iff sublist_def)

lemma is_movie_format_examples: "is_movie_format ''a.mp4''" "\<not> is_movie_format ''b.txt''" "is_movie_format ''c.mkv''"
  "\<not> is_movie_format ''A.MP4''"
  by (simp_all add: is_movie_format_def movie_formats_def sublist_Cons_right prefix_code)

text \<open>
  Claim C7. Without shuffling, the media list of a directory that can be listed holds, in
  the order of the listing, the media of exactly the listed names that are accepted, each
  as the path of the name in the directory; a name is accepted exactly when one of the
  format markers occurs in it as a contiguous run of the same characters. For the listing
  \<open>a.mp4\<close>, \<open>b.txt\<close>, \<open>c.mkv\<close> these are \<open>a.mp4\<close> and \<open>c.mkv\<close>.
\<close>

theorem create_media_list_filters_in_order:
  "listdir e path = Inr names \<Longrightarrow>
     fst (create_media_list e path False p) =
       Inr (map (os_path_join path) (filter is_movie_format names)) \<and>
     (\<forall>name. is_movie_format name \<longleftrightarrow>
        (\<exists>fmt \<in> set movie_formats. \<exists>ps ss. name = ps @ fmt @ ss)) \<and>
     (names = [''a.mp4'', ''b.txt'', ''c.mkv''] \<longrightarrow>
        fst (create_media_list e path False p) =
          Inr [os_path_join path ''a.mp4'', os_path_join path ''c.mkv''])"
  using is_movie_format_iff is_movie_format_examples by (simp add: create_media_list_def Let_def)

text \<open>
  The directory \<open>b1\<close> with the three files of the scenario, and a folder of the USB
  stick with a fourth file whose marker is in capitals: it is not accepted.
\<close>

theorem create_media_list_filters_in_order_witness:
  "listdir \<lparr>listdir = (\<lambda>d. if d = ''b1'' then Inr [''a.mp4'', ''b.txt'', ''c.mkv'']
                              else Inl FileNotFoundError),
            draws = (\<lambda>i. 0), time_play = 5, play_returns = PyNone\<rparr> ''b1''
     = Inr [''a.mp4'', ''b.txt'', ''c.mkv''] \<and>
   fst (create_media_list
          \<lparr>listdir = (\<lambda>d. if d = ''b1'' then Inr [''a.mp4'', ''b.txt'', ''c.mkv'']
                              else Inl FileNotFoundError),
            draws = (\<lambda>i. 0), time_play = 5, play_returns = PyNone\<rparr> ''b1'' False (init 0))
     = Inr [''b1/a.mp4'', ''b1/c.mkv''] \<and>
   listdir \<lparr>listdir = (\<lambda>d. if d = ''/media/usb/b1'' then Inr [''a.mp4'', ''b.txt'', ''c.mkv'', ''D.MP4'']
                              else Inl FileNotFoundError),
            draws = (\<lambda>i. 0), time_play = 5, play_returns = PyNone\<rparr> ''/media/usb/b1''
     = Inr [''a.mp4'', ''b.txt'', ''c.mkv'', ''D.MP4''] \<and>
   fst (create_media_list
          \<lparr>listdir = (\<lambda>d. if d = ''/media/usb/b1'' then Inr [''a.mp4'', ''b.txt'', ''c.mkv'', ''D.MP4'']
                              else Inl FileNotFoundError),
            draws = (\<lambda>i. 0), time_play = 5, play_returns = PyNone\<rparr> ''/media/usb/b1'' False (init 0))
     = Inr [''/media/usb/b1/a.mp4'', ''/media/usb/b1/c.mkv'']"
  using create_media_list_filters_in_order
     [of "\<lparr>listdir = (\<lambda>d. if d = ''b1'' then Inr [''a.mp4'', ''b.txt'', ''c.mkv'']
                              else Inl FileNotFoundError),
            draws = (\<lambda>i. 0), time_play = 5, play_returns = PyNone\<rparr>" "''b1''"
         "[''a.mp4'', ''b.txt'', ''c.mkv'']" "init 0"]
    create_media_list_filters_in_order
     [of "\<lparr>listdir = (\<lambda>d. if d = ''/media/usb/b1'' then Inr [''a.mp4'', ''b.txt'', ''c.mkv'', ''D.MP4'']
                              else Inl FileNotFoundError),
            draws = (\<lambda>i. 0), time_play = 5, play_returns = PyNone\<rparr>" "''/media/usb/b1''"
         "[''a.mp4'', ''b.txt'', ''c.mkv'', ''D.MP4'']" "init 0"]
  by (simp add: is_movie_format_def movie_formats_def sublist_Cons_right prefix_code os_path_join_def
       suffix_def)

text \<open>
  Claim C4, as the code has it. \<open>create_media_list\<close> handles \<open>FileNotFoundError\<close> only: for
  a missing directory it returns an empty media list and logs the exception as a warning.
  Any other exception of the listing, such as the \<open>PermissionError\<close> of a directory that
  cannot be read, leaves the method unhandled and unlogged.
\<close>

theorem create_media_list_missing_dir:
  "(listdir e path = Inl FileNotFoundError \<longrightarrow>
      create_media_list e path sh p =
        (Inr [], logging WARNING ''{}'' [Exn FileNotFoundError] p)) \<and>
   (\<forall>err. listdir e path = Inl err \<and> err \<noteq> FileNotFoundError \<longrightarrow>
      create_media_list e path sh p = (Inl err, p))"
  by (simp add: create_media_list_def)

text \<open>A missing folder, and a path that is not a directory.\<close>

theorem create_media_list_missing_dir_witness:
  "listdir \<lparr>listdir = (\<lambda>d. Inl FileNotFoundError), draws = (\<lambda>i. 0), time_play = 5, play_returns = PyNone\<rparr>
      ''/media/usb/b9'' = Inl FileNotFoundError \<and>
   fst (create_media_list \<lparr>listdir = (\<lambda>d. Inl FileNotFoundError), draws = (\<lambda>i. 0), time_play = 5, play_returns = PyNone\<rparr>
      ''/media/usb/b9'' True (init 0)) = Inr [] \<and>
   logged (snd (create_media_list \<lparr>listdir = (\<lambda>d. Inl FileNotFoundError), draws = (\<lambda>i. 0), time_play = 5, play_returns = PyNone\<rparr>
      ''/media/usb/b9'' True (init 0))) = [(WARNING, ''{}'', [Exn FileNotFoundError])] \<and>
   listdir \<lparr>listdir = (\<lambda>d. Inl NotADirectoryError), draws = (\<lambda>i. 0), time_play = 5, play_returns = PyNone\<rparr>
      ''/media/usb/b9'' = Inl NotADirectoryError \<and>
   fst (create_media_list \<lparr>listdir = (\<lambda>d. Inl NotADirectoryError), draws = (\<lambda>i. 0), time_play = 5, play_returns = PyNone\<rparr>
      ''/media/usb/b9'' True (init 0)) = Inl NotADirectoryError"
  using create_media_list_missing_dir [of "\<lparr>listdir = (\<lambda>d. Inl FileNotFoundError), draws = (\<lambda>i. 0), time_play = 5, play_returns = PyNone\<rparr>"
          "''/media/usb/b9''" True "init 0"]
        create_media_list_missing_dir [of "\<lparr>listdir = (\<lambda>d. Inl NotADirectoryError), draws = (\<lambda>i. 0), time_play = 5, play_returns = PyNone\<rparr>"
          "''/media/usb/b9''" True "init 0"]
  by (simp add: logging_def init_def)

text \<open>
  Claim C4 as stated fails for an unreadable directory: the \<open>PermissionError\<close> of the
  listing is raised to the caller and nothing is logged.
\<close>

theorem unreadable_dir_counterexample:
  "create_media_list \<lparr>listdir = (\<lambda>d. Inl PermissionError), draws = (\<lambda>i. 0), time_play = 5, play_returns = PyNone\<rparr>
      ''/media/usb/b1'' False (init 0) = (Inl PermissionError, init 0)"
  by (simp add: create_media_list_def)

subsection \<open>Errors of the RFID scan\<close>

lemma sample_ticks_go_on:
  "default_movie glitch_tick (inactivity_check (tick_start glitch_tick) (init 150)) =
     (Inr True, logging DEBUG ''Media Player state: {}'' [Num 3] (init 150))"
  "default_movie broken_tick (inactivity_check (tick_start broken_tick) (init 150)) =
     (Inr True, logging DEBUG ''Media Player state: {}'' [Num 3] (init 150))"
  by (simp_all add: glitch_tick_def broken_tick_def default_movie_def inactivity_check_def init_def
      playing_def Let_def)

lemma card_tick_plays:
  "last_action_time p = 150 \<Longrightarrow> inactive_timeout p = 300 \<Longrightarrow> last_input_times p = Map.empty \<Longrightarrow>
   fst (tick card_tick p) = Inr () \<and>
   list_player (snd (tick card_tick p)) =
     \<lparr>media_list = [''/media/usb/b2/z.mp4''], playback_mode = 1,
      calls = calls (list_player p) @ [Next, Play]\<rparr>"
  by (simp add: tick_def card_tick_def inactivity_check_def default_movie_def playing_def Let_def
      rfid_input_def input_delay_def touch_def last_time_def logging_def
      play_movies_from_folder_def strip_def is_space_def is_space2_def is_space3_def
      os_path_join_def movies_dir_def suffix_def create_media_list_def usb_def
      is_movie_format_def movie_formats_def sublist_Cons_right prefix_code random_shuffle_def
      play_media_list_def set_media_list_def set_playback_mode_def vlc_def)

lemma rfid_except_not_type_error: "fst (rfid_except err p) \<noteq> Inl TypeError"
  by (simp add: rfid_except_def)

lemma rfid_input_not_type_error: "fst (rfid_input te p) \<noteq> Inl TypeError"
  by (simp add: rfid_input_def Let_def rfid_except_not_type_error
      split: sum.splits option.splits prod.splits)

text \<open>
  Claim C6, as the code has it. The loop handles \<open>TypeError\<close> only. In a tick that reaches
  the scan: when the scan raises \<open>TypeError\<close>, the RFID step ends normally with nothing
  changed but a warning in the log, the tick ends normally, and the loop runs the
  following tick on that state; no \<open>TypeError\<close> raised in the RFID step ever leaves it.
  When the scan raises any other exception, the tick raises it, unlogged, and the loop
  ends with it: no later tick is run.
\<close>

theorem rfid_scan_errors:
  "default_movie te (inactivity_check (tick_start te) p0) = (Inr True, p1) \<Longrightarrow>
     (scan_card te = Inl TypeError \<longrightarrow>
        (\<forall>p. rfid_input te p =
           (Inr (), logging WARNING ''Error scanning RFID card. Please try again.'' [] p)) \<and>
        tick te p0 =
          (Inr (), logging WARNING ''Error scanning RFID card. Please try again.'' [] p1) \<and>
        ticks [te] p0 =
          (Inr (), logging WARNING ''Error scanning RFID card. Please try again.'' [] p1) \<and>
        (\<forall>te' tes. ticks (te # te' # tes) p0 =
           (case tick te' (logging WARNING ''Error scanning RFID card. Please try again.'' [] p1) of
              (Inl err, q) \<Rightarrow> (Inl err, q)
            | (Inr u, q) \<Rightarrow> ticks tes q))) \<and>
     (\<forall>err. scan_card te = Inl err \<and> err \<noteq> TypeError \<longrightarrow>
        tick te p0 = (Inl err, p1) \<and> (\<forall>tes. ticks (te # tes) p0 = (Inl err, p1))) \<and>
     (\<forall>te' p'. fst (rfid_input te' p') \<noteq> Inl TypeError)"
proof -
  assume go: "default_movie te (inactivity_check (tick_start te) p0) = (Inr True, p1)"
  have tick_eq: "tick te p0 = rfid_input te p1"
    using go by (simp add: tick_def Let_def)
  have caught: "rfid_input te p =
      (Inr (), logging WARNING ''Error scanning RFID card. Please try again.'' [] p)"
    if "scan_card te = Inl TypeError" for p
    using that by (simp add: rfid_input_def rfid_except_def)
  have raised: "rfid_input te p = (Inl err, p)"
    if "scan_card te = Inl err" "err \<noteq> TypeError" for err p
    using that by (simp add: rfid_input_def rfid_except_def)
  have a: "scan_card te = Inl TypeError \<longrightarrow>
        (\<forall>p. rfid_input te p =
           (Inr (), logging WARNING ''Error scanning RFID card. Please try again.'' [] p)) \<and>
        tick te p0 =
          (Inr (), logging WARNING ''Error scanning RFID card. Please try again.'' [] p1) \<and>
        ticks [te] p0 =
          (Inr (), logging WARNING ''Error scanning RFID card. Please try again.'' [] p1) \<and>
        (\<forall>te' tes. ticks (te # te' # tes) p0 =
           (case tick te' (logging WARNING ''Error scanning RFID card. Please try again.'' [] p1) of
              (Inl err, q) \<Rightarrow> (Inl err, q)
            | (Inr u, q) \<Rightarrow> ticks tes q))"
    by (simp add: tick_eq caught)
  have b: "\<forall>err. scan_card te = Inl err \<and> err \<noteq> TypeError \<longrightarrow>
        tick te p0 = (Inl err, p1) \<and> (\<forall>tes. ticks (te # tes) p0 = (Inl err, p1))"
    by (simp add: tick_eq raised)
  show ?thesis
    using a b rfid_input_not_type_error by blast
qed

text \<open>
  While a movie is playing: a tick whose scan raises \<open>TypeError\<close>, followed by a tick with a
  card for \<open>b2\<close>, which is played; and a tick whose scan raises \<open>OSError\<close>, after which the
  tick with the card is not run.
\<close>

theorem rfid_scan_errors_witness:
  "default_movie glitch_tick (inactivity_check (tick_start glitch_tick) (init 150)) =
     (Inr True, logging DEBUG ''Media Player state: {}'' [Num 3] (init 150)) \<and>
   scan_card glitch_tick = Inl TypeError \<and>
   tick glitch_tick (init 150) =
     (Inr (), logging WARNING ''Error scanning RFID card. Please try again.'' []
        (logging DEBUG ''Media Player state: {}'' [Num 3] (init 150))) \<and>
   fst (ticks [glitch_tick, card_tick] (init 150)) = Inr () \<and>
   list_player (snd (ticks [glitch_tick, card_tick] (init 150))) =
     \<lparr>media_list = [''/media/usb/b2/z.mp4''], playback_mode = 1, calls = [Next, Play]\<rparr> \<and>
   default_movie broken_tick (inactivity_check (tick_start broken_tick) (init 150)) =
     (Inr True, logging DEBUG ''Media Player state: {}'' [Num 3] (init 150)) \<and>
   scan_card broken_tick = Inl OSError \<and> OSError \<noteq> TypeError \<and>
   ticks [broken_tick, card_tick] (init 150) =
     (Inl OSError, logging DEBUG ''Media Player state: {}'' [Num 3] (init 150))"
proof -
  define w where "w = logging WARNING ''Error scanning RFID card. Please try again.'' []
        (logging DEBUG ''Media Player state: {}'' [Num 3] (init 150))"
  have s: "scan_card glitch_tick = Inl TypeError" "scan_card broken_tick = Inl OSError"
    by (simp_all add: glitch_tick_def broken_tick_def)
  have w: "last_action_time w = 150" "inactive_timeout w = 300" "last_input_times w = Map.empty"
    "calls (list_player w) = []"
    by (simp_all add: w_def init_def logging_def)
  note c = card_tick_plays [OF w(1,2,3)]
  obtain r q where rq: "tick card_tick w = (r, q)" by (cases "tick card_tick w")
  have r: "r = Inr ()" and q: "list_player q =
     \<lparr>media_list = [''/media/usb/b2/z.mp4''], playback_mode = 1, calls = [Next, Play]\<rparr>"
    using c rq w(4) by simp_all
  show ?thesis
    using rfid_scan_errors [OF sample_ticks_go_on(1)] rfid_scan_errors [OF sample_ticks_go_on(2)]
      s sample_ticks_go_on rq r q
    by (simp add: w_def)
qed

text \<open>
  Claim C6 as stated fails for a scan error that is not a \<open>TypeError\<close>: the \<open>OSError\<close> of
  the scan ends the tick and the loop, and no warning is logged.
\<close>

theorem other_scan_error_counterexample:
  "scan_card broken_tick = Inl OSError \<and>
   tick broken_tick (init 150) =
     (Inl OSError, logging DEBUG ''Media Player state: {}'' [Num 3] (init 150)) \<and>
   ticks [broken_tick, card_tick] (init 150) =
     (Inl OSError, logging DEBUG ''Media Player state: {}'' [Num 3] (init 150))"
  by (simp add: broken_tick_def tick_def inactivity_check_def init_def default_movie_def playing_def
      rfid_input_def rfid_except_def Let_def)

subsection \<open>Fast forward and rewind\<close>








end
